theory Spec2Isabelle
  imports Main "HOL-Library.Word" "HOL-Library.Sublist" "HOL-Library.AList"
begin

section \<open>JavaScript strings\<close>

text \<open>
  A JavaScript string is a sequence of UTF-16 code units, and \<open>length\<close>, \<open>trim\<close>,
  \<open>join\<close> and \<open>JSON.parse\<close> all work on code units. \<open>js\<close> embeds an ASCII
  literal of the source.
\<close>

type_synonym jsstring = "16 word list"

definition js :: "string \<Rightarrow> jsstring" where
  "js s = map of_char s"

text \<open>
  \<open>String(n)\<close> for a non-negative integer below \<open>10^21\<close> (here an array length plus
  one): its decimal digits, most significant first.
\<close>

fun String_of_nat :: "nat \<Rightarrow> jsstring" where
  "String_of_nat n =
     (if n < 10 then [of_nat (48 + n)]
      else String_of_nat (n div 10) @ [of_nat (48 + n mod 10)])"

section \<open>JSON values\<close>

text \<open>
  The values \<open>JSON.parse\<close> can return. A number keeps the text of its literal; the
  IEEE-754 value it denotes is not computed. An object lists its own properties in
  creation order, each key once.
\<close>

datatype json =
    JNull
  | JBool bool
  | JNumber jsstring
  | JString jsstring
  | JArray "json list"
  | JObject "(jsstring \<times> json) list"

text \<open>A JavaScript value that may also be \<open>undefined\<close>.\<close>

datatype jsval = Undefined | Val json

section \<open>String builtins\<close>

text \<open>
  \<open>Array.prototype.join(sep)\<close> on an array of strings: the loop of the language
  specification, which puts the separator before every element but the first.
\<close>

fun join_loop :: "jsstring \<Rightarrow> jsstring list \<Rightarrow> nat \<Rightarrow> jsstring \<Rightarrow> jsstring" where
  "join_loop sep [] k R = R"
| "join_loop sep (x # xs) k R =
     join_loop sep xs (k + 1) ((if k > 0 then R @ sep else R) @ x)"

definition join :: "jsstring \<Rightarrow> jsstring list \<Rightarrow> jsstring" where
  "join sep xs = join_loop sep xs 0 []"

text \<open>
  \<open>String.prototype.trim\<close> removes the code units that are WhiteSpace or
  LineTerminator from both ends.
\<close>

definition is_js_whitespace :: "16 word \<Rightarrow> bool" where
  "is_js_whitespace c =
     (c = 0x0009 \<or> c = 0x000A \<or> c = 0x000B \<or> c = 0x000C \<or> c = 0x000D \<or>
      c = 0x0020 \<or> c = 0x00A0 \<or> c = 0x1680 \<or> (0x2000 \<le> c \<and> c \<le> 0x200A) \<or>
      c = 0x2028 \<or> c = 0x2029 \<or> c = 0x202F \<or> c = 0x205F \<or> c = 0x3000 \<or>
      c = 0xFEFF)"

definition trim :: "jsstring \<Rightarrow> jsstring" where
  "trim s = rev (dropWhile is_js_whitespace (rev (dropWhile is_js_whitespace s)))"

section \<open>Errors\<close>

text \<open>
  What a promise of this program can reject with, or a statement throw:
  \<open>JSON.parse\<close> throws SyntaxError, a property read on \<open>null\<close> or
  \<open>undefined\<close> throws TypeError, and the two libraries reject with errors of their own.
\<close>

datatype js_error = SyntaxError | TypeError | Rejected jsstring

section \<open>JSON.parse\<close>

text \<open>
  The JSON grammar of the language specification, by recursive descent. Every parser
  returns the value read and the rest of the input. \<open>shorter\<close> keeps a result only
  when input was consumed.
\<close>

definition is_json_ws :: "16 word \<Rightarrow> bool" where
  "is_json_ws c = (c = 0x09 \<or> c = 0x0A \<or> c = 0x0D \<or> c = 0x20)"

definition skip_ws :: "jsstring \<Rightarrow> jsstring" where
  "skip_ws s = dropWhile is_json_ws s"

definition is_digit :: "16 word \<Rightarrow> bool" where
  "is_digit c = (0x30 \<le> c \<and> c \<le> 0x39)"

definition hex_value :: "16 word \<Rightarrow> 16 word option" where
  "hex_value c =
     (if 0x30 \<le> c \<and> c \<le> 0x39 then Some (c - 0x30)
      else if 0x41 \<le> c \<and> c \<le> 0x46 then Some (c - 0x37)
      else if 0x61 \<le> c \<and> c \<le> 0x66 then Some (c - 0x57)
      else None)"

definition hex4 :: "16 word \<Rightarrow> 16 word \<Rightarrow> 16 word \<Rightarrow> 16 word \<Rightarrow> 16 word option" where
  "hex4 a b c d =
     (case (hex_value a, hex_value b, hex_value c, hex_value d) of
        (Some x, Some y, Some z, Some w) \<Rightarrow> Some (((x * 16 + y) * 16 + z) * 16 + w)
      | _ \<Rightarrow> None)"

definition single_escape :: "16 word \<Rightarrow> 16 word option" where
  "single_escape c =
     (if c = 0x22 then Some 0x22
      else if c = 0x5C then Some 0x5C
      else if c = 0x2F then Some 0x2F
      else if c = 0x62 then Some 0x08
      else if c = 0x66 then Some 0x0C
      else if c = 0x6E then Some 0x0A
      else if c = 0x72 then Some 0x0D
      else if c = 0x74 then Some 0x09
      else None)"

fun parse_string_chars :: "jsstring \<Rightarrow> (jsstring \<times> jsstring) option" where
  "parse_string_chars [] = None"
| "parse_string_chars (c # cs) =
     (if c = 0x22 then Some ([], cs)
      else if c = 0x5C then
        (case cs of
           [] \<Rightarrow> None
         | e # es \<Rightarrow>
             if e = 0x75 then
               (case es of
                  h1 # h2 # h3 # h4 # r \<Rightarrow>
                    (case hex4 h1 h2 h3 h4 of
                       None \<Rightarrow> None
                     | Some u \<Rightarrow> map_option (\<lambda>(t, r'). (u # t, r')) (parse_string_chars r))
                | _ \<Rightarrow> None)
             else
               (case single_escape e of
                  None \<Rightarrow> None
                | Some u \<Rightarrow> map_option (\<lambda>(t, r'). (u # t, r')) (parse_string_chars es)))
      else if c < 0x20 then None
      else map_option (\<lambda>(t, r'). (c # t, r')) (parse_string_chars cs))"

definition parse_fraction :: "jsstring \<Rightarrow> (jsstring \<times> jsstring) option" where
  "parse_fraction s =
     (case s of
        [] \<Rightarrow> Some ([], s)
      | c # t \<Rightarrow>
          if c = 0x2E then
            (if takeWhile is_digit t = [] then None
             else Some (c # takeWhile is_digit t, dropWhile is_digit t))
          else Some ([], s))"

definition parse_sign :: "jsstring \<Rightarrow> jsstring \<times> jsstring" where
  "parse_sign s =
     (case s of
        [] \<Rightarrow> ([], s)
      | c # t \<Rightarrow> if c = 0x2B \<or> c = 0x2D then ([c], t) else ([], s))"

definition parse_exponent :: "jsstring \<Rightarrow> (jsstring \<times> jsstring) option" where
  "parse_exponent s =
     (case s of
        [] \<Rightarrow> Some ([], s)
      | c # t \<Rightarrow>
          if c = 0x65 \<or> c = 0x45 then
            (case parse_sign t of
               (sg, u) \<Rightarrow>
                 if takeWhile is_digit u = [] then None
                 else Some (c # sg @ takeWhile is_digit u, dropWhile is_digit u))
          else Some ([], s))"

definition parse_int :: "jsstring \<Rightarrow> (jsstring \<times> jsstring) option" where
  "parse_int s =
     (case s of
        [] \<Rightarrow> None
      | d # t \<Rightarrow>
          if d = 0x30 then Some ([d], t)
          else if is_digit d then Some (takeWhile is_digit s, dropWhile is_digit s)
          else None)"

definition parse_number :: "jsstring \<Rightarrow> (jsstring \<times> jsstring) option" where
  "parse_number s =
     (case (case s of [] \<Rightarrow> ([], s) | c # t \<Rightarrow> if c = 0x2D then ([c], t) else ([], s)) of
        (sg, s1) \<Rightarrow>
          (case parse_int s1 of
             None \<Rightarrow> None
           | Some (ip, s2) \<Rightarrow>
               (case parse_fraction s2 of
                  None \<Rightarrow> None
                | Some (fr, s3) \<Rightarrow>
                    (case parse_exponent s3 of
                       None \<Rightarrow> None
                     | Some (ex, s4) \<Rightarrow> Some (sg @ ip @ fr @ ex, s4)))))"

definition shorter :: "jsstring \<Rightarrow> ('a \<times> jsstring) option \<Rightarrow> ('a \<times> jsstring) option" where
  "shorter s res =
     (case res of
        None \<Rightarrow> None
      | Some (v, r) \<Rightarrow> if length r < length s then Some (v, r) else None)"

function parse_value :: "jsstring \<Rightarrow> (json \<times> jsstring) option"
  and parse_elements :: "jsstring \<Rightarrow> json list \<Rightarrow> (json \<times> jsstring) option"
  and parse_members :: "jsstring \<Rightarrow> (jsstring \<times> json) list \<Rightarrow> (json \<times> jsstring) option"
where
  "parse_value s =
     (case s of
        [] \<Rightarrow> None
      | c # cs \<Rightarrow>
          if c = 0x7B then
            (case skip_ws cs of
               [] \<Rightarrow> None
             | d # ds \<Rightarrow> if d = 0x7D then Some (JObject [], ds) else parse_members cs [])
          else if c = 0x5B then
            (case skip_ws cs of
               [] \<Rightarrow> None
             | d # ds \<Rightarrow> if d = 0x5D then Some (JArray [], ds) else parse_elements cs [])
          else if c = 0x22 then
            map_option (\<lambda>(t, r). (JString t, r)) (parse_string_chars cs)
          else if c = 0x2D \<or> is_digit c then
            map_option (\<lambda>(t, r). (JNumber t, r)) (parse_number s)
          else if prefix (js ''true'') s then Some (JBool True, drop 4 s)
          else if prefix (js ''false'') s then Some (JBool False, drop 5 s)
          else if prefix (js ''null'') s then Some (JNull, drop 4 s)
          else None)"
| "parse_elements s acc =
     (case shorter s (parse_value (skip_ws s)) of
        None \<Rightarrow> None
      | Some (v, r) \<Rightarrow>
          (case skip_ws r of
             [] \<Rightarrow> None
           | d # ds \<Rightarrow>
               if d = 0x2C then parse_elements ds (acc @ [v])
               else if d = 0x5D then Some (JArray (acc @ [v]), ds)
               else None))"
| "parse_members s acc =
     (case skip_ws s of
        [] \<Rightarrow> None
      | q # ks \<Rightarrow>
          if q \<noteq> 0x22 then None
          else
            (case shorter ks (parse_string_chars ks) of
               None \<Rightarrow> None
             | Some (k, r1) \<Rightarrow>
                 (case skip_ws r1 of
                    [] \<Rightarrow> None
                  | col # r2 \<Rightarrow>
                      if col \<noteq> 0x3A then None
                      else
                        (case shorter r1 (parse_value (skip_ws r2)) of
                           None \<Rightarrow> None
                         | Some (v, r3) \<Rightarrow>
                             (case skip_ws r3 of
                                [] \<Rightarrow> None
                              | d # ds \<Rightarrow>
                                  if d = 0x2C then parse_members ds (AList.update k v acc)
                                  else if d = 0x7D then Some (JObject (AList.update k v acc), ds)
                                  else None)))))"
  by pat_completeness auto

termination
proof -
  have ws: "length b < length a" if "skip_ws a = c # b" for a b and c :: "16 word"
  proof -
    have "length (skip_ws a) \<le> length a"
      by (simp add: skip_ws_def length_dropWhile_le)
    with that show ?thesis by simp
  qed
  have ws_le: "length (skip_ws a) \<le> length a" for a
    by (simp add: skip_ws_def length_dropWhile_le)
  have sh: "length r < length s" if "shorter s res = Some (v, r)"
    for s r and v :: 'a and res
    using that by (auto simp: shorter_def split: option.splits if_splits)
  show ?thesis
  proof (relation "measure (\<lambda>x. case x of
                      Inl s \<Rightarrow> 2 * length s
                    | Inr (Inl (s, acc)) \<Rightarrow> 2 * length s + 1
                    | Inr (Inr (s, acc)) \<Rightarrow> 2 * length s + 1)", goal_cases)
    case 1
    show ?case by simp
  next
    case (2 s c cs d ds)
    then show ?case by simp
  next
    case (3 s c cs d ds)
    then show ?case by simp
  next
    case (4 s acc)
    show ?case using ws_le [of s] by simp
  next
    case (5 s acc x2 v r d ds)
    from 5(1,2) have "length r < length s" using sh by metis
    moreover from 5(3) have "length ds < length r" by (rule ws)
    ultimately show ?case by simp
  next
    case (6 s acc q ks x2 k r1 col r2)
    from 6(1) have "length ks < length s" by (rule ws)
    moreover from 6(3,4) have "length r1 < length ks" using sh by metis
    moreover from 6(5) have "length r2 < length r1" by (rule ws)
    moreover have "length (skip_ws r2) \<le> length r2" by (rule ws_le)
    ultimately show ?case by simp
  next
    case (7 s acc q ks x2 k r1 col r2 x2a v r3 d ds)
    from 7(1) have "length ks < length s" by (rule ws)
    moreover from 7(3,4) have "length r1 < length ks" using sh by metis
    moreover from 7(7,8) have "length r3 < length r1" using sh by metis
    moreover from 7(9) have "length ds < length r3" by (rule ws)
    ultimately show ?case by simp
  qed
qed

definition JSON_parse :: "jsstring \<Rightarrow> js_error + json" where
  "JSON_parse s =
     (case parse_value (skip_ws s) of
        None \<Rightarrow> Inl SyntaxError
      | Some (v, r) \<Rightarrow> if skip_ws r = [] then Inr v else Inl SyntaxError)"



section \<open>The state of the App component\<close>

text \<open>
  \<open>interface ResumeInput { id: string; text: string }\<close>. The fields are named
  \<open>resume_id\<close> and \<open>resume_text\<close> here.
\<close>

record ResumeInput =
  resume_id :: jsstring
  resume_text :: jsstring

text \<open>
  The \<open>useState\<close> cells of \<open>App\<close>. \<open>null\<close> is \<open>None\<close> for the cells typed
  \<open>string | null\<close> that only ever receive strings; \<open>result\<close> receives whatever
  \<open>screenResumes\<close> resolved with, so it is a JSON value (\<open>JNull\<close> initially), and
  \<open>selectedResumeId\<close> receives \<open>topCandidates[0]\<close> of that value.
\<close>

record app_state =
  resumes :: "ResumeInput list"
  isScreening :: bool
  isParsingPdf :: "jsstring option"
  successResumeId :: "jsstring option"
  result :: json
  selectedResumeId :: jsval
  error :: "jsstring option"
  activeResumeIdForUpload :: "jsstring option"

definition initial_state :: app_state where
  "initial_state =
     \<lparr> resumes = [\<lparr> resume_id = js ''1'', resume_text = js '''' \<rparr>],
       isScreening = False,
       isParsingPdf = None,
       successResumeId = None,
       result = JNull,
       selectedResumeId = Val JNull,
       error = None,
       activeResumeIdForUpload = None \<rparr>"

section \<open>The resume-list handlers\<close>

definition handleAddResume :: "app_state \<Rightarrow> app_state" where
  "handleAddResume s =
     (if length (resumes s) < 20
      then s\<lparr> resumes := resumes s @
                [\<lparr> resume_id = String_of_nat (length (resumes s) + 1),
                   resume_text = js '''' \<rparr>] \<rparr>
      else s)"

definition handleRemoveResume :: "jsstring \<Rightarrow> app_state \<Rightarrow> app_state" where
  "handleRemoveResume i s =
     (if length (resumes s) > 1
      then s\<lparr> resumes := filter (\<lambda>r. resume_id r \<noteq> i) (resumes s) \<rparr>
      else s)"

definition handleUpdateResume :: "jsstring \<Rightarrow> jsstring \<Rightarrow> app_state \<Rightarrow> app_state" where
  "handleUpdateResume i t s =
     s\<lparr> resumes := map (\<lambda>r. if resume_id r = i then r\<lparr> resume_text := t \<rparr> else r)
                        (resumes s) \<rparr>"

text \<open>
  A sequence of user actions on the resume list, each handled in the render that
  follows the previous one.
\<close>

datatype resume_op = Add | Remove jsstring | Update jsstring jsstring

fun apply_resume_op :: "resume_op \<Rightarrow> app_state \<Rightarrow> app_state" where
  "apply_resume_op Add s = handleAddResume s"
| "apply_resume_op (Remove i) s = handleRemoveResume i s"
| "apply_resume_op (Update i t) s = handleUpdateResume i t s"

fun run_resume_ops :: "resume_op list \<Rightarrow> app_state \<Rightarrow> app_state" where
  "run_resume_ops [] s = s"
| "run_resume_ops (x # xs) s = run_resume_ops xs (apply_resume_op x s)"

section \<open>geminiService.ts\<close>

text \<open>The request object passed to \<open>ai.models.generateContent\<close>.\<close>

datatype Type = OBJECT | ARRAY | STRING | NUMBER

datatype Schema =
  Schema (schema_type: Type)
         (schema_properties: "(jsstring \<times> Schema) list")
         (schema_items: "Schema option")
         (schema_required: "jsstring list")
         (schema_description: "jsstring option")

record GenerateContentConfig =
  config_systemInstruction :: jsstring
  config_responseMimeType :: jsstring
  config_responseSchema :: Schema

text \<open>\<open>contents\<close> is a list of contents, each a list of text parts.\<close>

record GenerateContentParameters =
  request_model :: jsstring
  request_contents :: "jsstring list list"
  request_config :: GenerateContentConfig

text \<open>
  Of the response only the \<open>text\<close> getter is read; it yields a string or
  \<open>undefined\<close>.
\<close>

record GenerateContentResponse =
  response_text :: "jsstring option"

text \<open>
  Effects outside the React state: the requests sent to the model, the buffers handed
  to the PDF library, the console, the pending timers and the value of the hidden file
  input (\<open>None\<close> while the ref is not attached).
\<close>

datatype callback = ClearSuccessResumeId

record world =
  generateContent_calls :: "GenerateContentParameters list"
  getDocument_calls :: "8 word list list"
  console_error :: "js_error list"
  timeouts :: "(callback \<times> nat) list"
  fileInput_value :: "jsstring option"

definition model :: jsstring where
  "model = js ''gemini-3.1-pro-preview''"

definition systemInstruction :: jsstring where
  "systemInstruction =
     js (''\<newline>'' @
         ''    You are an impartial resume-screening assistant for a Data Analyst position. Your task is to evaluate resumes strictly on job-related competencies and demonstrated skills.\<newline>'' @
         ''\<newline>'' @
         ''    Explicit Fairness Constraints (Mandatory):\<newline>'' @
         ''    You must not consider the following attributes in any form:\<newline>'' @
         ''    - Gender or gender-coded language\<newline>'' @
         ''    - Age or graduation year\<newline>'' @
         ''    - Ethnicity, caste, religion, or race\<newline>'' @
         ''    - Nationality or country of origin\<newline>'' @
         ''    - University name, college prestige, or ranking\<newline>'' @
         ''\<newline>'' @
         ''    If such attributes appear, you must ignore them completely and not reference them in reasoning or scoring.\<newline>'' @
         ''\<newline>'' @
         ''    Evaluation Criteria (Only These Are Allowed):\<newline>'' @
         ''    1. Technical Skills (40%): SQL, Python/R, Data cleaning & transformation, Statistical analysis, BI tools (Tableau, Power BI, etc.)\<newline>'' @
         ''    2. Practical Experience (30%): Data analysis projects (professional or academic), Business problem framing, Real datasets and outcomes\<newline>'' @
         ''    3. Analytical Thinking (20%): Problem-solving examples, Insight generation, Decision-support use cases\<newline>'' @
         ''    4. Communication Evidence (10%): Clarity of explanations, Stakeholder reporting, Documentation or dashboards\<newline>'' @
         ''\<newline>'' @
         ''    Scoring Rules:\<newline>'' @
         ''    - Score each resume on a 0'')
     @ [0x2013] @
     js (''100 scale.\<newline>'' @
         ''    - Provide criterion-level sub-scores.\<newline>'' @
         ''    - Use evidence-based justification quoting resume content.\<newline>'' @
         ''  '')"

definition prompt :: "ResumeInput list \<Rightarrow> jsstring" where
  "prompt resumes_arg =
     js (''\<newline>'' @
         ''    Evaluate the following 20 resumes for a Data Analyst role.\<newline>'' @
         ''    \<newline>'' @
         ''    Resumes:\<newline>'' @
         ''    '')
     @ join (js ''\<newline>\<newline>'')
         (map (\<lambda>r. js ''--- Resume ID: '' @ resume_id r @ js '' ---\<newline>'' @ resume_text r)
              resumes_arg)
     @ js (''\<newline>'' @
           ''\<newline>'' @
           ''    Return the results in the specified JSON format.\<newline>'' @
           ''  '')"

definition responseSchema :: Schema where
  "responseSchema =
     Schema OBJECT
       [(js ''evaluations'',
           Schema ARRAY []
             (Some (Schema OBJECT
                [(js ''resumeId'', Schema STRING [] None [] None),
                 (js ''scores'',
                    Schema OBJECT
                      [(js ''technicalSkills'', Schema NUMBER [] None [] None),
                       (js ''practicalExperience'', Schema NUMBER [] None [] None),
                       (js ''analyticalThinking'', Schema NUMBER [] None [] None),
                       (js ''communicationEvidence'', Schema NUMBER [] None [] None)]
                      None
                      [js ''technicalSkills'', js ''practicalExperience'',
                       js ''analyticalThinking'', js ''communicationEvidence'']
                      None),
                 (js ''totalScore'', Schema NUMBER [] None [] None),
                 (js ''strengths'',
                    Schema ARRAY [] (Some (Schema STRING [] None [] None)) [] None),
                 (js ''gaps'',
                    Schema ARRAY [] (Some (Schema STRING [] None [] None)) [] None),
                 (js ''justification'', Schema STRING [] None [] None)]
                None
                [js ''resumeId'', js ''scores'', js ''totalScore'', js ''strengths'',
                 js ''gaps'', js ''justification'']
                None))
             [] None),
        (js ''topCandidates'',
           Schema ARRAY [] (Some (Schema STRING [] None [] None)) []
             (Some (js ''IDs of the top 5 candidates ranked''))),
        (js ''fairnessCheck'',
           Schema STRING [] None []
             (Some (js ''A statement confirming compliance with fairness constraints'')))]
       None
       [js ''evaluations'', js ''topCandidates'', js ''fairnessCheck'']
       None"

definition screening_request :: "ResumeInput list \<Rightarrow> GenerateContentParameters" where
  "screening_request resumes_arg =
     \<lparr> request_model = model,
       request_contents = [[prompt resumes_arg]],
       request_config =
         \<lparr> config_systemInstruction = systemInstruction,
           config_responseMimeType = js ''application/json'',
           config_responseSchema = responseSchema \<rparr> \<rparr>"

text \<open>\<open>return JSON.parse(response.text || "{}")\<close>: an absent or empty text is falsy.\<close>

definition parse_response :: "GenerateContentResponse \<Rightarrow> js_error + json" where
  "parse_response response =
     JSON_parse (case response_text response of
                   None \<Rightarrow> js ''{}''
                 | Some t \<Rightarrow> if t = [] then js ''{}'' else t)"

text \<open>
  \<open>screenResumes\<close>. \<open>generateContent\<close> is the external model: what the awaited call
  settles with for a request. A rejection of the call rejects \<open>screenResumes\<close>.
\<close>

definition screenResumes ::
  "(GenerateContentParameters \<Rightarrow> js_error + GenerateContentResponse) \<Rightarrow>
   world \<Rightarrow> ResumeInput list \<Rightarrow> world \<times> (js_error + json)" where
  "screenResumes generateContent w resumes_arg =
     (let request = screening_request resumes_arg;
          w' = w\<lparr> generateContent_calls := generateContent_calls w @ [request] \<rparr>
      in case generateContent request of
           Inl e \<Rightarrow> (w', Inl e)
         | Inr response \<Rightarrow> (w', parse_response response))"

section \<open>PDF text extraction\<close>

text \<open>
  What the program reads of the PDF library: a document has \<open>numPages\<close> and
  \<open>getPage\<close>, a page has \<open>getTextContent\<close>, whose \<open>items\<close> each carry a
  string \<open>str\<close>. Each awaited call either yields its value or rejects. A \<open>File\<close>
  has a MIME \<open>type\<close> and the bytes \<open>arrayBuffer()\<close> settles with.
\<close>

record TextItem =
  str :: jsstring

record TextContent =
  items :: "TextItem list"

record PDFPageProxy =
  getTextContent :: "js_error + TextContent"

record PDFDocumentProxy =
  numPages :: nat
  getPage :: "nat \<Rightarrow> js_error + PDFPageProxy"

record File =
  file_type :: jsstring
  arrayBuffer :: "js_error + 8 word list"

text \<open>
  The \<open>for\<close> loop of \<open>extractTextFromPdf\<close>, from page \<open>i\<close> with the text
  gathered so far.
\<close>

function extract_pages :: "PDFDocumentProxy \<Rightarrow> nat \<Rightarrow> jsstring \<Rightarrow> js_error + jsstring" where
  "extract_pages pdf i fullText =
     (if i \<le> numPages pdf then
        (case getPage pdf i of
           Inl e \<Rightarrow> Inl e
         | Inr page \<Rightarrow>
             (case getTextContent page of
                Inl e \<Rightarrow> Inl e
              | Inr textContent \<Rightarrow>
                  extract_pages pdf (i + 1)
                    (fullText @ join (js '' '') (map str (items textContent))
                       @ js ''\<newline>'')))
      else Inr fullText)"
  by pat_completeness auto
termination
  by (relation "measure (\<lambda>(pdf, i, fullText). numPages pdf + 1 - i)") auto

text \<open>
  \<open>extractTextFromPdf\<close>. \<open>getDocument\<close> is the PDF library: what loading a
  buffer settles with.
\<close>

definition extractTextFromPdf ::
  "(8 word list \<Rightarrow> js_error + PDFDocumentProxy) \<Rightarrow> world \<Rightarrow> File \<Rightarrow>
   world \<times> (js_error + jsstring)" where
  "extractTextFromPdf getDocument w file =
     (case arrayBuffer file of
        Inl e \<Rightarrow> (w, Inl e)
      | Inr data \<Rightarrow>
          (let w' = w\<lparr> getDocument_calls := getDocument_calls w @ [data] \<rparr>
           in case getDocument data of
                Inl e \<Rightarrow> (w', Inl e)
              | Inr pdf \<Rightarrow> (w', extract_pages pdf 1 (js ''''))))"

section \<open>The asynchronous handlers\<close>

text \<open>
  A handler is modelled from the render it was created in to its completion, with no
  other event in between: it maps the world and the state before to the world and the
  state after all of its state setters have taken effect.
\<close>

text \<open>
  \<open>handleFileUpload\<close>. The argument is \<open>event.target.files?.[0]\<close>. The guard
  \<open>!activeResumeIdForUpload\<close> holds for \<open>null\<close> and for the empty string.
\<close>

definition handleFileUpload ::
  "(8 word list \<Rightarrow> js_error + PDFDocumentProxy) \<Rightarrow> File option \<Rightarrow>
   world \<times> app_state \<Rightarrow> world \<times> app_state" where
  "handleFileUpload getDocument file_opt ws =
     (case ws of (w, s) \<Rightarrow>
        (case (file_opt, activeResumeIdForUpload s) of
           (None, _) \<Rightarrow> (w, s)
         | (Some file, None) \<Rightarrow> (w, s)
         | (Some file, Some active) \<Rightarrow>
             if active = [] then (w, s)
             else if file_type file \<noteq> js ''application/pdf''
             then (w, s\<lparr> error := Some (js ''Please upload a PDF file.'') \<rparr>)
             else
               (let s1 = s\<lparr> isParsingPdf := Some active, error := None \<rparr>;
                    (w1, r) = extractTextFromPdf getDocument w file;
                    (w2, s2) =
                      (case r of
                         Inr t \<Rightarrow>
                           (w1\<lparr> timeouts := timeouts w1 @ [(ClearSuccessResumeId, 3000)] \<rparr>,
                            (handleUpdateResume active t s1)
                              \<lparr> successResumeId := Some active \<rparr>)
                       | Inl err \<Rightarrow>
                           (w1\<lparr> console_error := console_error w1 @ [err] \<rparr>,
                            s1\<lparr> error := Some (js
                              ''Failed to parse PDF. Please try pasting the text manually.'') \<rparr>))
                in (w2\<lparr> fileInput_value := map_option (\<lambda>v. js '''') (fileInput_value w2) \<rparr>,
                    s2\<lparr> isParsingPdf := None, activeResumeIdForUpload := None \<rparr>))))"

text \<open>
  The reads \<open>screeningResult.topCandidates\<close>, \<open>.length\<close> and \<open>[0]\<close> on a value
  that \<open>JSON.parse\<close> returned. Reading a property of \<open>null\<close> or \<open>undefined\<close>
  throws; booleans, numbers, strings and arrays have no property \<open>topCandidates\<close>;
  an array or string has its length and its element or character at index 0; an
  object has the own properties it was parsed with.
\<close>

definition get_topCandidates :: "json \<Rightarrow> js_error + jsval" where
  "get_topCandidates v =
     (case v of
        JNull \<Rightarrow> Inl TypeError
      | JObject ps \<Rightarrow>
          Inr (case map_of ps (js ''topCandidates'') of None \<Rightarrow> Undefined | Some x \<Rightarrow> Val x)
      | _ \<Rightarrow> Inr Undefined)"

datatype jslength = Count nat | Other jsval

definition get_length :: "jsval \<Rightarrow> js_error + jslength" where
  "get_length v =
     (case v of
        Undefined \<Rightarrow> Inl TypeError
      | Val JNull \<Rightarrow> Inl TypeError
      | Val (JArray xs) \<Rightarrow> Inr (Count (length xs))
      | Val (JString t) \<Rightarrow> Inr (Count (length t))
      | Val (JObject ps) \<Rightarrow>
          Inr (Other (case map_of ps (js ''length'') of None \<Rightarrow> Undefined | Some x \<Rightarrow> Val x))
      | Val _ \<Rightarrow> Inr (Other Undefined))"

text \<open>
  \<open>length > 0\<close>. For a length that is not a count the comparison converts the value
  to a number; that conversion and the floating-point comparison are the parameter
  \<open>gt0\<close>. \<open>undefined > 0\<close> is false.
\<close>

definition greater_than_0 :: "(json \<Rightarrow> bool) \<Rightarrow> jslength \<Rightarrow> bool" where
  "greater_than_0 gt0 l =
     (case l of
        Count n \<Rightarrow> n > 0
      | Other Undefined \<Rightarrow> False
      | Other (Val x) \<Rightarrow> gt0 x)"

definition get_index_0 :: "jsval \<Rightarrow> jsval" where
  "get_index_0 v =
     (case v of
        Val (JArray xs) \<Rightarrow> (case xs of [] \<Rightarrow> Undefined | x # _ \<Rightarrow> Val x)
      | Val (JString t) \<Rightarrow> (case t of [] \<Rightarrow> Undefined | c # _ \<Rightarrow> Val (JString [c]))
      | Val (JObject ps) \<Rightarrow>
          (case map_of ps (js ''0'') of None \<Rightarrow> Undefined | Some x \<Rightarrow> Val x)
      | _ \<Rightarrow> Undefined)"

text \<open>
  The statements of the \<open>try\<close> block after the awaited call: \<open>setResult\<close>, then
  the conditional \<open>setSelectedResumeId\<close>. The state reached is returned together
  with the error thrown, if any.
\<close>

definition show_result :: "(json \<Rightarrow> bool) \<Rightarrow> json \<Rightarrow> app_state \<Rightarrow> app_state \<times> js_error option" where
  "show_result gt0 screeningResult s =
     (let s' = s\<lparr> result := screeningResult \<rparr>
      in case get_topCandidates screeningResult of
           Inl e \<Rightarrow> (s', Some e)
         | Inr tc \<Rightarrow>
             (case get_length tc of
                Inl e \<Rightarrow> (s', Some e)
              | Inr l \<Rightarrow>
                  if greater_than_0 gt0 l
                  then (s'\<lparr> selectedResumeId := get_index_0 tc \<rparr>, None)
                  else (s', None)))"

text \<open>The \<open>catch\<close> block of \<open>handleScreening\<close>.\<close>

definition screening_failed :: "js_error \<Rightarrow> world \<times> app_state \<Rightarrow> world \<times> app_state" where
  "screening_failed err ws =
     (case ws of (w, s) \<Rightarrow>
        (w\<lparr> console_error := console_error w @ [err] \<rparr>,
         s\<lparr> error := Some (js ''Screening failed. Please check your API key and try again.'') \<rparr>))"

definition validResumes :: "app_state \<Rightarrow> ResumeInput list" where
  "validResumes s = filter (\<lambda>r. length (trim (resume_text r)) > 0) (resumes s)"

definition handleScreening ::
  "(GenerateContentParameters \<Rightarrow> js_error + GenerateContentResponse) \<Rightarrow>
   (json \<Rightarrow> bool) \<Rightarrow> world \<times> app_state \<Rightarrow> world \<times> app_state" where
  "handleScreening generateContent gt0 ws =
     (case ws of (w, s) \<Rightarrow>
        if length (validResumes s) = 0
        then (w, s\<lparr> error := Some (js ''Please add at least one resume text.'') \<rparr>)
        else
          (let s1 = s\<lparr> isScreening := True, error := None \<rparr>;
               (w1, r) = screenResumes generateContent w (validResumes s);
               (w2, s2) =
                 (case r of
                    Inr screeningResult \<Rightarrow>
                      (case show_result gt0 screeningResult s1 of
                         (s', None) \<Rightarrow> (w1, s')
                       | (s', Some err) \<Rightarrow> screening_failed err (w1, s'))
                  | Inl err \<Rightarrow> screening_failed err (w1, s1))
           in (w2, s2\<lparr> isScreening := False \<rparr>)))"

definition initial_world :: world where
  "initial_world =
     \<lparr> generateContent_calls = [],
       getDocument_calls = [],
       console_error = [],
       timeouts = [],
       fileInput_value = Some (js '''') \<rparr>"

section \<open>The specification's wording\<close>

text \<open>
  Definitions that follow the words of the specification, to compare the code with:
  strings separated by a separator, the block of one resume in the prompt, and a
  value that has the three fields of a Screening Result.
\<close>

fun spec_separated :: "jsstring \<Rightarrow> jsstring list \<Rightarrow> jsstring" where
  "spec_separated sep [] = []"
| "spec_separated sep [x] = x"
| "spec_separated sep (x # y # ys) = x @ sep @ spec_separated sep (y # ys)"

definition spec_resume_block :: "ResumeInput \<Rightarrow> jsstring" where
  "spec_resume_block r =
     js ''--- Resume ID: '' @ resume_id r @ js '' ---'' @ js ''\<newline>'' @ resume_text r"

definition spec_has_field :: "json \<Rightarrow> jsstring \<Rightarrow> bool" where
  "spec_has_field v k = (case v of JObject ps \<Rightarrow> map_of ps k \<noteq> None | _ \<Rightarrow> False)"

definition spec_ScreeningResult :: "json \<Rightarrow> bool" where
  "spec_ScreeningResult v =
     (spec_has_field v (js ''evaluations'') \<and>
      spec_has_field v (js ''topCandidates'') \<and>
      spec_has_field v (js ''fairnessCheck''))"

text \<open>A JSON string literal without escapes, for writing response texts.\<close>

definition quoted :: "string \<Rightarrow> string" where
  "quoted s = [CHR 0x22] @ s @ [CHR 0x22]"

section \<open>JSON.parse consumes its input\<close>

text \<open>
  Every parser that succeeds leaves a rest shorter than its input, so \<open>shorter\<close>
  never discards a result of \<open>parse_string_chars\<close> or \<open>parse_value\<close>.
\<close>

lemma length_skip_ws: "length (skip_ws s) \<le> length s"
  by (simp add: skip_ws_def length_dropWhile_le)

lemma skip_ws_Cons_shorter: "skip_ws a = c # b \<Longrightarrow> length b < length a"
  using length_skip_ws [of a] by simp

lemma parse_string_chars_shorter:
  "parse_string_chars s = Some (t, r) \<Longrightarrow> length r < length s"
proof (induction s arbitrary: t r rule: parse_string_chars.induct)
  case 1
  then show ?case by simp
next
  case (2 c cs)
  then show ?case
    by (fastforce split: if_splits list.splits option.splits)
qed

lemma parse_int_shorter: "parse_int s = Some (t, r) \<Longrightarrow> length r < length s"
  using length_dropWhile_le [of is_digit "tl s"]
  by (auto simp: parse_int_def split: list.splits if_splits)

lemma parse_fraction_le: "parse_fraction s = Some (t, r) \<Longrightarrow> length r \<le> length s"
  using length_dropWhile_le [of is_digit "tl s"]
  by (auto simp: parse_fraction_def split: list.splits if_splits)

lemma parse_sign_le: "parse_sign s = (t, r) \<Longrightarrow> length r \<le> length s"
  by (auto simp: parse_sign_def split: list.splits if_splits)

lemma parse_exponent_le: "parse_exponent s = Some (t, r) \<Longrightarrow> length r \<le> length s"
proof -
  assume a: "parse_exponent s = Some (t, r)"
  show ?thesis
  proof (cases s)
    case Nil
    with a show ?thesis by (simp add: parse_exponent_def)
  next
    case (Cons c u)
    obtain sg v where ps: "parse_sign u = (sg, v)" by (cases "parse_sign u")
    have "length (dropWhile is_digit v) \<le> length v" by (rule length_dropWhile_le)
    with parse_sign_le [OF ps] a Cons ps show ?thesis
      by (auto simp: parse_exponent_def split: if_splits)
  qed
qed

lemma parse_number_shorter: "parse_number s = Some (t, r) \<Longrightarrow> length r < length s"
proof -
  assume a: "parse_number s = Some (t, r)"
  obtain sg s1 where sg: "(case s of [] \<Rightarrow> ([], s) | c # t \<Rightarrow> if c = 0x2D then ([c], t) else ([], s)) = (sg, s1)"
    by (cases "(case s of [] \<Rightarrow> ([], s) | c # t \<Rightarrow> if c = 0x2D then ([c], t) else ([], s))")
  then have l1: "length s1 \<le> length s"
    by (auto split: list.splits if_splits)
  from a sg obtain ip s2 where ip: "parse_int s1 = Some (ip, s2)"
    by (auto simp: parse_number_def split: option.splits)
  from a sg ip obtain fr s3 where fr: "parse_fraction s2 = Some (fr, s3)"
    by (auto simp: parse_number_def split: option.splits)
  from a sg ip fr obtain ex where ex: "parse_exponent s3 = Some (ex, r)"
    by (auto simp: parse_number_def split: option.splits)
  from parse_int_shorter [OF ip] parse_fraction_le [OF fr] parse_exponent_le [OF ex] l1
  show ?thesis by simp
qed

lemma shorter_SomeD: "shorter s res = Some (v, r) \<Longrightarrow> res = Some (v, r) \<and> length r < length s"
  by (auto simp: shorter_def split: option.splits if_splits)

lemma prefix_drop_shorter: "prefix p s \<Longrightarrow> p \<noteq> [] \<Longrightarrow> length (drop (length p) s) < length s"
  by (auto simp: prefix_def)

declare parse_value.simps [simp del] parse_elements.simps [simp del] parse_members.simps [simp del]

lemma parse_consumes:
  "parse_value s = Some (v, r) \<Longrightarrow> length r < length s"
  "parse_elements s acc = Some (v, r) \<Longrightarrow> length r < length s"
  "parse_members s acc' = Some (v, r) \<Longrightarrow> length r < length s"
proof (induction s and s acc and s acc' arbitrary: v r and v r and v r
       rule: parse_value_parse_elements_parse_members.induct)
  case (1 s)
  from "1.prems" obtain c cs where s: "s = c # cs"
    by (cases s) (simp_all add: parse_value.simps)
  have t: "length (drop 4 s) < length s" if "prefix (js ''true'') s"
    using prefix_drop_shorter [OF that] by (simp add: js_def)
  have f: "length (drop 5 s) < length s" if "prefix (js ''false'') s"
    using prefix_drop_shorter [OF that] by (simp add: js_def)
  have n: "length (drop 4 s) < length s" if "prefix (js ''null'') s"
    using prefix_drop_shorter [OF that] by (simp add: js_def)
  consider (obj) "c = 0x7B" | (arr) "c \<noteq> 0x7B" "c = 0x5B"
    | (str) "c \<noteq> 0x7B" "c \<noteq> 0x5B" "c = 0x22"
    | (num) "c \<noteq> 0x7B" "c \<noteq> 0x5B" "c \<noteq> 0x22" "c = 0x2D \<or> is_digit c"
    | (lit) "c \<noteq> 0x7B" "c \<noteq> 0x5B" "c \<noteq> 0x22" "\<not> (c = 0x2D \<or> is_digit c)"
    by blast
  then show ?case
  proof cases
    case obj
    with "1.prems" s obtain d ds where ws: "skip_ws cs = d # ds"
      and res: "(if d = 0x7D then Some (JObject [], ds) else parse_members cs []) = Some (v, r)"
      by (auto simp: parse_value.simps [of "0x7B # cs"] split: list.splits)
    show ?thesis
    proof (cases "d = 0x7D")
      case True
      with res skip_ws_Cons_shorter [OF ws] s show ?thesis by auto
    next
      case False
      with res have "parse_members cs [] = Some (v, r)" by simp
      from "1.IH"(1) [OF s obj ws False this] s show ?thesis by simp
    qed
  next
    case arr
    with "1.prems" s obtain d ds where ws: "skip_ws cs = d # ds"
      and res: "(if d = 0x5D then Some (JArray [], ds) else parse_elements cs []) = Some (v, r)"
      by (auto simp: parse_value.simps [of "0x5B # cs"] split: list.splits)
    show ?thesis
    proof (cases "d = 0x5D")
      case True
      with res skip_ws_Cons_shorter [OF ws] s show ?thesis by auto
    next
      case False
      with res have "parse_elements cs [] = Some (v, r)" by simp
      from "1.IH"(2) [OF s arr ws False this] s show ?thesis by simp
    qed
  next
    case str
    with "1.prems" s obtain t where "parse_string_chars cs = Some (t, r)"
      by (auto simp: parse_value.simps [of "0x22 # cs"])
    from parse_string_chars_shorter [OF this] s show ?thesis by simp
  next
    case num
    with "1.prems" s obtain t where "parse_number s = Some (t, r)"
      by (auto simp: parse_value.simps [of "c # cs"])
    from parse_number_shorter [OF this] show ?thesis .
  next
    case lit
    with "1.prems" s t f n show ?thesis
      by (auto simp: parse_value.simps [of "c # cs"] split: if_splits)
  qed
next
  case (2 s acc)
  from "2.prems" obtain x y where sh: "shorter s (parse_value (skip_ws s)) = Some (x, y)"
    by (auto simp: parse_elements.simps [of s] split: option.splits)
  then have y: "length y < length s"
    by (auto dest: shorter_SomeD)
  from "2.prems" sh obtain d ds where ws: "skip_ws y = d # ds"
    and res: "(if d = 0x2C then parse_elements ds (acc @ [x])
               else if d = 0x5D then Some (JArray (acc @ [x]), ds) else None) = Some (v, r)"
    by (auto simp: parse_elements.simps [of s] split: list.splits)
  have ds: "length ds < length y"
    by (rule skip_ws_Cons_shorter [OF ws])
  show ?case
  proof (cases "d = 0x2C")
    case True
    with res have "parse_elements ds (acc @ [x]) = Some (v, r)" by simp
    from "2.IH"(2) [OF sh refl ws True this] y ds show ?thesis by simp
  next
    case False
    with res y ds show ?thesis by (auto split: if_splits)
  qed
next
  case (3 s acc)
  from "3.prems" obtain q ks where ws0: "skip_ws s = q # ks" and q: "q = 0x22"
    by (auto simp: parse_members.simps [of s] split: list.splits if_splits)
  from "3.prems" ws0 q obtain k r1 where
    sh1: "shorter ks (parse_string_chars ks) = Some (k, r1)"
    by (auto simp: parse_members.simps [of s] split: option.splits)
  from "3.prems" ws0 q sh1 obtain col r2 where ws1: "skip_ws r1 = col # r2" and col: "col = 0x3A"
    by (auto simp: parse_members.simps [of s] split: list.splits if_splits)
  from "3.prems" ws0 q sh1 ws1 col obtain x r3 where
    sh2: "shorter r1 (parse_value (skip_ws r2)) = Some (x, r3)"
    by (auto simp: parse_members.simps [of s] split: option.splits)
  from "3.prems" ws0 q sh1 ws1 col sh2 obtain d ds where ws2: "skip_ws r3 = d # ds"
    and res: "(if d = 0x2C then parse_members ds (AList.update k x acc)
               else if d = 0x7D then Some (JObject (AList.update k x acc), ds)
               else None) = Some (v, r)"
    by (auto simp: parse_members.simps [of s] split: list.splits)
  have len: "length ds < length s"
    using skip_ws_Cons_shorter [OF ws0] skip_ws_Cons_shorter [OF ws2]
      shorter_SomeD [OF sh1] shorter_SomeD [OF sh2]
    by simp
  show ?case
  proof (cases "d = 0x2C")
    case True
    with res have "parse_members ds (AList.update k x acc) = Some (v, r)" by simp
    from "3.IH"(2) [OF ws0 _ sh1 refl ws1 _ sh2 refl ws2 True this] q col len
    show ?thesis by simp
  next
    case False
    with res len show ?thesis by (auto split: if_splits)
  qed
qed

lemma shorter_parse_string_chars: "shorter ks (parse_string_chars ks) = parse_string_chars ks"
  by (cases "parse_string_chars ks")
     (auto simp: shorter_def dest: parse_string_chars_shorter)

lemma shorter_parse_value:
  "length s' \<le> length s \<Longrightarrow> shorter s (parse_value s') = parse_value s'"
  by (cases "parse_value s'") (auto simp: shorter_def dest: parse_consumes(1))

section \<open>Properties of the resume list\<close>

lemma run_resume_ops_append:
  "run_resume_ops (xs @ ys) s = run_resume_ops ys (run_resume_ops xs s)"
  by (induction xs arbitrary: s) simp_all

lemma handleAddResume_length_le:
  "length (resumes s) \<le> 20 \<Longrightarrow> length (resumes (handleAddResume s)) \<le> 20"
  by (simp add: handleAddResume_def)

lemma handleRemoveResume_length_le:
  "length (resumes (handleRemoveResume i s)) \<le> length (resumes s)"
  by (simp add: handleRemoveResume_def)

lemma handleUpdateResume_length:
  "length (resumes (handleUpdateResume i t s)) = length (resumes s)"
  by (simp add: handleUpdateResume_def)

lemma handleAddResume_full:
  "length (resumes s) \<ge> 20 \<Longrightarrow> handleAddResume s = s"
  by (simp add: handleAddResume_def)

lemma handleRemoveResume_single:
  "length (resumes s) = 1 \<Longrightarrow> handleRemoveResume i s = s"
  by (simp add: handleRemoveResume_def)

lemma apply_resume_op_length_le:
  assumes "length (resumes s) \<le> 20"
  shows "length (resumes (apply_resume_op x s)) \<le> 20"
proof (cases x)
  case Add
  with assms show ?thesis by (simp add: handleAddResume_length_le)
next
  case (Remove i)
  with assms handleRemoveResume_length_le [of i s] show ?thesis by simp
next
  case (Update i t)
  with assms show ?thesis by (simp add: handleUpdateResume_length)
qed

lemma run_resume_ops_length_le:
  "length (resumes s) \<le> 20 \<Longrightarrow> length (resumes (run_resume_ops xs s)) \<le> 20"
  by (induction xs arbitrary: s) (simp_all add: apply_resume_op_length_le)

text \<open>
  C3. The claim: in every state reachable from the initial state by the resume-list
  handlers the list has at least 1 and at most 20 entries. The upper bound holds
  (\<open>run_resume_ops_length_le\<close>), as do the two cases in which a handler leaves
  the list unchanged; the lower bound does not: after adding, removing
  resume 1 and adding again, two entries carry the id 2, and removing id 2 filters
  both out although the guard \<open>resumes.length > 1\<close> was meant to keep one entry.
\<close>

theorem resumes_empty_after_duplicate_removal:
  "resumes (run_resume_ops [Add, Remove (js ''1''), Add, Remove (js ''2'')] initial_state) = []"
  by code_simp

text \<open>
  C10. Resume ids are not kept unique: starting from the initial single-resume state,
  add, remove resume 1, add again. The list then has two distinct entries (positions 0
  and 1) whose ids are both \<open>String(1 + 1)\<close>.
\<close>

theorem resume_ids_not_unique:
  "map resume_id (resumes (run_resume_ops [Add, Remove (js ''1''), Add] initial_state))
     = [js ''2'', js ''2'']"
  by code_simp

section \<open>Strings and separators\<close>

lemma prefix_js_append: "prefix a b \<Longrightarrow> prefix (js a) (js b @ c)"
  unfolding js_def by (rule prefix_prefix, rule map_mono_prefix)

lemma join_loop_Suc: "join_loop sep xs (Suc k) R = R @ concat (map (\<lambda>x. sep @ x) xs)"
  by (induction xs arbitrary: k R) simp_all

lemma join_Nil: "join sep [] = []"
  by (simp add: join_def)

lemma join_Cons: "join sep (x # xs) = x @ concat (map (\<lambda>y. sep @ y) xs)"
  by (simp add: join_def join_loop_Suc)

lemma join_spec_separated: "join sep xs = spec_separated sep xs"
  by (induction sep xs rule: spec_separated.induct) (simp_all add: join_Nil join_Cons)

section \<open>The screening request\<close>

text \<open>
  C2. For every list of resume inputs, the system instruction of the one request that
  \<open>screenResumes\<close> sends is the constant \<open>systemInstruction\<close>, in which the
  inputs do not occur. That string begins with the role of an impartial screener, the
  mandatory fairness constraints (the line forbidding consideration, directly followed
  by gender, age, ethnicity, nationality and university prestige, and the order to
  ignore them) and the evaluation criteria, the only ones allowed: Technical Skills
  40%, Practical Experience 30%, Analytical Thinking 20%, Communication Evidence 10%.
\<close>

theorem systemInstruction_sent_fixed_rubric_and_fairness:
  "map (\<lambda>request. config_systemInstruction (request_config request))
       (generateContent_calls (fst (screenResumes generateContent w resumes_arg)))
     = map (\<lambda>request. config_systemInstruction (request_config request))
         (generateContent_calls w) @ [systemInstruction]
   \<and> prefix
       (js (''\<newline>'' @
           ''    You are an impartial resume-screening assistant for a Data Analyst position. Your task is to evaluate resumes strictly on job-related competencies and demonstrated skills.\<newline>'' @
           ''\<newline>'' @
           ''    Explicit Fairness Constraints (Mandatory):\<newline>'' @
           ''    You must not consider the following attributes in any form:\<newline>'' @
           ''    - Gender or gender-coded language\<newline>'' @
           ''    - Age or graduation year\<newline>'' @
           ''    - Ethnicity, caste, religion, or race\<newline>'' @
           ''    - Nationality or country of origin\<newline>'' @
           ''    - University name, college prestige, or ranking\<newline>'' @
           ''\<newline>'' @
           ''    If such attributes appear, you must ignore them completely and not reference them in reasoning or scoring.\<newline>'' @
           ''\<newline>'' @
           ''    Evaluation Criteria (Only These Are Allowed):\<newline>'' @
           ''    1. Technical Skills (40%): SQL, Python/R, Data cleaning & transformation, Statistical analysis, BI tools (Tableau, Power BI, etc.)\<newline>'' @
           ''    2. Practical Experience (30%): Data analysis projects (professional or academic), Business problem framing, Real datasets and outcomes\<newline>'' @
           ''    3. Analytical Thinking (20%): Problem-solving examples, Insight generation, Decision-support use cases\<newline>'' @
           ''    4. Communication Evidence (10%): Clarity of explanations, Stakeholder reporting, Documentation or dashboards\<newline>''))
       systemInstruction"
proof -
  have sent: "map (\<lambda>request. config_systemInstruction (request_config request))
       (generateContent_calls (fst (screenResumes generateContent w resumes_arg)))
     = map (\<lambda>request. config_systemInstruction (request_config request))
         (generateContent_calls w) @ [systemInstruction]"
    by (simp add: screenResumes_def Let_def screening_request_def split: sum.split)
  have begins: "prefix
       (js (''\<newline>'' @
           ''    You are an impartial resume-screening assistant for a Data Analyst position. Your task is to evaluate resumes strictly on job-related competencies and demonstrated skills.\<newline>'' @
           ''\<newline>'' @
           ''    Explicit Fairness Constraints (Mandatory):\<newline>'' @
           ''    You must not consider the following attributes in any form:\<newline>'' @
           ''    - Gender or gender-coded language\<newline>'' @
           ''    - Age or graduation year\<newline>'' @
           ''    - Ethnicity, caste, religion, or race\<newline>'' @
           ''    - Nationality or country of origin\<newline>'' @
           ''    - University name, college prestige, or ranking\<newline>'' @
           ''\<newline>'' @
           ''    If such attributes appear, you must ignore them completely and not reference them in reasoning or scoring.\<newline>'' @
           ''\<newline>'' @
           ''    Evaluation Criteria (Only These Are Allowed):\<newline>'' @
           ''    1. Technical Skills (40%): SQL, Python/R, Data cleaning & transformation, Statistical analysis, BI tools (Tableau, Power BI, etc.)\<newline>'' @
           ''    2. Practical Experience (30%): Data analysis projects (professional or academic), Business problem framing, Real datasets and outcomes\<newline>'' @
           ''    3. Analytical Thinking (20%): Problem-solving examples, Insight generation, Decision-support use cases\<newline>'' @
           ''    4. Communication Evidence (10%): Clarity of explanations, Stakeholder reporting, Documentation or dashboards\<newline>''))
       systemInstruction"
    unfolding systemInstruction_def
    by (rule prefix_js_append) code_simp
  from sent begins show ?thesis by (rule conjI)
qed

text \<open>
  C4. For every list of resume inputs, the prompt is a fixed head, then for each input
  in list order the line \<open>--- Resume ID: {id} ---\<close> followed by the input's text,
  consecutive blocks separated by a blank line, then a fixed tail; this prompt is the
  only content of the request, and the request is sent.
\<close>

theorem prompt_lists_every_resume_in_order:
  "prompt resumes_arg =
     js (''\<newline>'' @
         ''    Evaluate the following 20 resumes for a Data Analyst role.\<newline>'' @
         ''    \<newline>'' @
         ''    Resumes:\<newline>'' @
         ''    '')
     @ spec_separated (js ''\<newline>\<newline>'') (map spec_resume_block resumes_arg)
     @ js (''\<newline>'' @
           ''\<newline>'' @
           ''    Return the results in the specified JSON format.\<newline>'' @
           ''  '')
   \<and> generateContent_calls (fst (screenResumes generateContent w resumes_arg))
       = generateContent_calls w @ [screening_request resumes_arg]
   \<and> request_contents (screening_request resumes_arg) = [[prompt resumes_arg]]"
proof -
  have blocks: "map (\<lambda>r. js ''--- Resume ID: '' @ resume_id r @ js '' ---\<newline>'' @ resume_text r)
                  resumes_arg = map spec_resume_block resumes_arg"
    by (simp add: spec_resume_block_def js_def)
  have p: "prompt resumes_arg =
     js (''\<newline>'' @
         ''    Evaluate the following 20 resumes for a Data Analyst role.\<newline>'' @
         ''    \<newline>'' @
         ''    Resumes:\<newline>'' @
         ''    '')
     @ spec_separated (js ''\<newline>\<newline>'') (map spec_resume_block resumes_arg)
     @ js (''\<newline>'' @
           ''\<newline>'' @
           ''    Return the results in the specified JSON format.\<newline>'' @
           ''  '')"
    unfolding prompt_def blocks join_spec_separated ..
  have c: "generateContent_calls (fst (screenResumes generateContent w resumes_arg))
             = generateContent_calls w @ [screening_request resumes_arg]"
    by (simp add: screenResumes_def Let_def split: sum.split)
  have r: "request_contents (screening_request resumes_arg) = [[prompt resumes_arg]]"
    by (simp add: screening_request_def)
  from p c r show ?thesis by blast
qed


section \<open>The value screenResumes resolves with\<close>

text \<open>
  For a response with a text that is not empty, \<open>screenResumes\<close> settles as
  \<open>JSON.parse\<close> of that text does; the value is not validated.
\<close>

lemma screenResumes_resolves_with_parsed_text:
  assumes "generateContent (screening_request resumes_arg) = Inr response"
    and "response_text response = Some t"
    and "t \<noteq> []"
  shows "snd (screenResumes generateContent w resumes_arg) = JSON_parse t"
  using assms by (simp add: screenResumes_def Let_def parse_response_def)

lemma screenResumes_resolves_with_parsed_text_example:
  "snd (screenResumes
          (\<lambda>request. Inr \<lparr> response_text = Some (js (''{'' @ quoted ''evaluations'' @ '':[],''
              @ quoted ''topCandidates'' @ '':['' @ quoted ''1'' @ ''],''
              @ quoted ''fairnessCheck'' @ '':'' @ quoted ''ok'' @ ''}'')) \<rparr>)
          initial_world
          [\<lparr> resume_id = js ''1'', resume_text = js ''SQL and Python'' \<rparr>])
     = Inr (JObject [(js ''evaluations'', JArray []),
                     (js ''topCandidates'', JArray [JString (js ''1'')]),
                     (js ''fairnessCheck'', JString (js ''ok''))])
   \<and> spec_ScreeningResult
        (JObject [(js ''evaluations'', JArray []),
                  (js ''topCandidates'', JArray [JString (js ''1'')]),
                  (js ''fairnessCheck'', JString (js ''ok''))])"
proof -
  let ?t = "js (''{'' @ quoted ''evaluations'' @ '':[],''
              @ quoted ''topCandidates'' @ '':['' @ quoted ''1'' @ ''],''
              @ quoted ''fairnessCheck'' @ '':'' @ quoted ''ok'' @ ''}'')"
  let ?v = "JObject [(js ''evaluations'', JArray []),
                     (js ''topCandidates'', JArray [JString (js ''1'')]),
                     (js ''fairnessCheck'', JString (js ''ok''))]"
  have ne: "?t \<noteq> []"
    by (simp add: js_def)
  have parsed: "JSON_parse ?t = Inr ?v"
    by code_simp
  have fields: "spec_ScreeningResult ?v"
    by code_simp
  have "snd (screenResumes (\<lambda>request. Inr \<lparr> response_text = Some ?t \<rparr>) initial_world
          [\<lparr> resume_id = js ''1'', resume_text = js ''SQL and Python'' \<rparr>]) = JSON_parse ?t"
    by (rule screenResumes_resolves_with_parsed_text [OF refl _ ne]) simp
  with parsed fields show ?thesis by simp
qed

text \<open>
  C1. The claim: for every response obtained from the external AI model,
  \<open>screenResumes\<close> resolves with a Screening Result that has the fields
  \<open>evaluations\<close>, \<open>topCandidates\<close> and \<open>fairnessCheck\<close>, as its return
  type \<open>Promise<ScreeningResult>\<close> and the \<open>required\<close> list of the response
  schema declare. The code breaks it at a response without text: it parses the literal
  \<open>{}\<close> and resolves with the empty object, which has none of the three fields.
  \<open>handleScreening\<close> stores that object as the result and then throws a TypeError
  on reading \<open>topCandidates.length\<close>.
\<close>

theorem screenResumes_no_text_resolves_with_empty_object:
  "snd (screenResumes (\<lambda>request. Inr \<lparr> response_text = None \<rparr>) initial_world
          [\<lparr> resume_id = js ''1'', resume_text = js ''SQL and Python'' \<rparr>])
     = Inr (JObject [])
   \<and> \<not> spec_ScreeningResult (JObject [])
   \<and> result (snd (handleScreening (\<lambda>request. Inr \<lparr> response_text = None \<rparr>) (\<lambda>v. False)
         (initial_world,
          initial_state\<lparr> resumes := [\<lparr> resume_id = js ''1'',
                                      resume_text = js ''SQL and Python'' \<rparr>] \<rparr>)))
     = JObject []
   \<and> console_error (fst (handleScreening (\<lambda>request. Inr \<lparr> response_text = None \<rparr>)
         (\<lambda>v. False)
         (initial_world,
          initial_state\<lparr> resumes := [\<lparr> resume_id = js ''1'',
                                      resume_text = js ''SQL and Python'' \<rparr>] \<rparr>)))
     = [TypeError]"
proof -
  let ?g = "\<lambda>request :: GenerateContentParameters.
              (Inr \<lparr> response_text = None \<rparr> :: js_error + GenerateContentResponse)"
  let ?rs = "[\<lparr> resume_id = js ''1'', resume_text = js ''SQL and Python'' \<rparr>]"
  let ?s = "initial_state\<lparr> resumes := ?rs \<rparr>"
  have parsed: "JSON_parse (js ''{}'') = Inr (JObject [])"
    by code_simp
  have resolved: "snd (screenResumes ?g initial_world ?rs) = Inr (JObject [])"
    using parsed by (simp add: screenResumes_def Let_def parse_response_def)
  have fields: "\<not> spec_ScreeningResult (JObject [])"
    by (simp add: spec_ScreeningResult_def spec_has_field_def)
  have valid: "validResumes ?s = ?rs"
    by code_simp
  have shown: "show_result (\<lambda>v. False) (JObject []) s
                 = (s\<lparr> result := JObject [] \<rparr>, Some TypeError)" for s
    by (simp add: show_result_def get_topCandidates_def get_length_def)
  have handled: "handleScreening ?g (\<lambda>v. False) (initial_world, ?s)
      = (initial_world\<lparr> generateContent_calls := [screening_request ?rs],
                          console_error := [TypeError] \<rparr>,
         ?s\<lparr> isScreening := False, result := JObject [],
             error := Some (js ''Screening failed. Please check your API key and try again.'') \<rparr>)"
    using parsed
    by (simp add: handleScreening_def valid screenResumes_def Let_def parse_response_def
        shown screening_failed_def initial_world_def)
  from resolved fields handled show ?thesis by simp
qed

section \<open>Screening from the user interface\<close>

text \<open>
  C5. Once \<open>handleScreening\<close> has passed its validation, \<open>isScreening\<close> is
  false when it completes, whatever the call settled with; and if the
  \<open>screenResumes\<close> call rejects, the error state is the screening-failed message
  and the result and resumes states are as before.
\<close>

theorem handleScreening_rejected:
  assumes "validResumes s \<noteq> []"
  shows "isScreening (snd (handleScreening generateContent gt0 (w, s))) = False
    \<and> (snd (screenResumes generateContent w (validResumes s)) = Inl e \<longrightarrow>
         error (snd (handleScreening generateContent gt0 (w, s)))
           = Some (js ''Screening failed. Please check your API key and try again.'')
         \<and> result (snd (handleScreening generateContent gt0 (w, s))) = result s
         \<and> resumes (snd (handleScreening generateContent gt0 (w, s))) = resumes s)"
  using assms
  by (auto simp: handleScreening_def Let_def screening_failed_def show_result_def
      split: prod.splits sum.splits option.splits)

text \<open>
  The claim at one resume with text and a model that rejects the call.
\<close>

theorem handleScreening_rejected_witness:
  "validResumes (initial_state\<lparr> resumes := [\<lparr> resume_id = js ''1'', resume_text = js ''SQL'' \<rparr>] \<rparr>) \<noteq> []
   \<and> snd (screenResumes (\<lambda>request. Inl (Rejected (js ''API key not valid''))) initial_world
            (validResumes (initial_state\<lparr> resumes := [\<lparr> resume_id = js ''1'', resume_text = js ''SQL'' \<rparr>] \<rparr>)))
       = Inl (Rejected (js ''API key not valid''))
   \<and> isScreening (snd (handleScreening (\<lambda>request. Inl (Rejected (js ''API key not valid'')))
         (\<lambda>v. False)
         (initial_world, initial_state\<lparr> resumes := [\<lparr> resume_id = js ''1'', resume_text = js ''SQL'' \<rparr>] \<rparr>)))
       = False
   \<and> error (snd (handleScreening (\<lambda>request. Inl (Rejected (js ''API key not valid'')))
         (\<lambda>v. False)
         (initial_world, initial_state\<lparr> resumes := [\<lparr> resume_id = js ''1'', resume_text = js ''SQL'' \<rparr>] \<rparr>)))
       = Some (js ''Screening failed. Please check your API key and try again.'')"
proof -
  let ?s = "initial_state\<lparr> resumes := [\<lparr> resume_id = js ''1'', resume_text = js ''SQL'' \<rparr>] \<rparr>"
  let ?g = "\<lambda>request :: GenerateContentParameters.
              (Inl (Rejected (js ''API key not valid'')) :: js_error + GenerateContentResponse)"
  have valid: "validResumes ?s \<noteq> []"
    by code_simp
  have rejects: "snd (screenResumes ?g initial_world (validResumes ?s))
                   = Inl (Rejected (js ''API key not valid''))"
    by (simp add: screenResumes_def Let_def)
  from handleScreening_rejected [OF valid, of ?g "\<lambda>v. False" initial_world
      "Rejected (js ''API key not valid'')"] valid rejects
  show ?thesis by simp
qed

text \<open>
  C8. \<open>handleScreening\<close> passes to \<open>screenResumes\<close> exactly the resumes
  whose trimmed text is not empty: the one request sent is the screening request of
  that sublist. If there is none, nothing is sent and only the error state changes, to
  the message asking for a resume text.
\<close>

theorem handleScreening_valid_resumes_only:
  "(validResumes s = [] \<longrightarrow>
      handleScreening generateContent gt0 (w, s)
        = (w, s\<lparr> error := Some (js ''Please add at least one resume text.'') \<rparr>))
   \<and> (validResumes s \<noteq> [] \<longrightarrow>
      generateContent_calls (fst (handleScreening generateContent gt0 (w, s)))
        = generateContent_calls w @ [screening_request (validResumes s)])
   \<and> validResumes s = filter (\<lambda>r. trim (resume_text r) \<noteq> []) (resumes s)"
  by (auto simp: handleScreening_def Let_def screening_failed_def show_result_def
      screenResumes_def validResumes_def
      split: prod.splits sum.splits option.splits)

text \<open>
  The claim at the initial state, whose only resume is blank, and at a state with
  one blank and one non-blank resume.
\<close>

theorem handleScreening_valid_resumes_only_witness:
  "handleScreening (\<lambda>request. Inr \<lparr> response_text = None \<rparr>) (\<lambda>v. False)
       (initial_world, initial_state)
     = (initial_world,
        initial_state\<lparr> error := Some (js ''Please add at least one resume text.'') \<rparr>)
   \<and> generateContent_calls (fst (handleScreening (\<lambda>request. Inr \<lparr> response_text = None \<rparr>)
         (\<lambda>v. False)
         (initial_world,
          initial_state\<lparr> resumes := [\<lparr> resume_id = js ''1'', resume_text = js ''  \<newline>'' \<rparr>,
                                    \<lparr> resume_id = js ''2'', resume_text = js '' SQL '' \<rparr>] \<rparr>)))
     = [screening_request [\<lparr> resume_id = js ''2'', resume_text = js '' SQL '' \<rparr>]]"
proof -
  let ?g = "\<lambda>request :: GenerateContentParameters.
              (Inr \<lparr> response_text = None \<rparr> :: js_error + GenerateContentResponse)"
  let ?s = "initial_state\<lparr> resumes := [\<lparr> resume_id = js ''1'', resume_text = js ''  \<newline>'' \<rparr>,
                                        \<lparr> resume_id = js ''2'', resume_text = js '' SQL '' \<rparr>] \<rparr>"
  have blank: "validResumes initial_state = []"
    by code_simp
  have some: "validResumes ?s = [\<lparr> resume_id = js ''2'', resume_text = js '' SQL '' \<rparr>]"
    by code_simp
  have calls: "generateContent_calls initial_world = []"
    by (simp add: initial_world_def)
  from handleScreening_valid_resumes_only [of initial_state ?g "\<lambda>v. False" initial_world]
    handleScreening_valid_resumes_only [of ?s ?g "\<lambda>v. False" initial_world]
    blank some calls
  show ?thesis by simp
qed

section \<open>PDF upload\<close>

lemma extract_pages_loop:
  assumes "\<forall>i. 1 \<le> i \<and> i \<le> numPages pdf \<longrightarrow>
             (\<exists>page textContent. getPage pdf i = Inr page \<and>
                getTextContent page = Inr textContent \<and> map str (items textContent) = strs i)"
    and "1 \<le> i"
  shows "extract_pages pdf i acc =
           Inr (acc @ concat (map (\<lambda>k. spec_separated (js '' '') (strs k) @ js ''\<newline>'')
                               [i ..< numPages pdf + 1]))"
  using assms
proof (induction pdf i acc rule: extract_pages.induct)
  case (1 pdf i fullText)
  show ?case
  proof (cases "i \<le> numPages pdf")
    case False
    then show ?thesis by simp
  next
    case True
    with "1.prems" obtain page textContent where
      pg: "getPage pdf i = Inr page" and tc: "getTextContent page = Inr textContent"
      and st: "map str (items textContent) = strs i"
      by blast
    have up: "[i ..< numPages pdf + 1] = i # [i + 1 ..< numPages pdf + 1]"
      using True by (simp add: upt_conv_Cons)
    have "extract_pages pdf i fullText =
            extract_pages pdf (i + 1)
              (fullText @ join (js '' '') (map str (items textContent)) @ js ''\<newline>'')"
      using True pg tc by simp
    also have "\<dots> = Inr ((fullText @ join (js '' '') (map str (items textContent)) @ js ''\<newline>'')
                 @ concat (map (\<lambda>k. spec_separated (js '' '') (strs k) @ js ''\<newline>'')
                               [i + 1 ..< numPages pdf + 1]))"
      using "1.IH" [OF True pg tc "1.prems"(1)] by simp
    finally show ?thesis
      by (simp only: up st join_spec_separated list.map concat.simps append_assoc)
  qed
qed

text \<open>
  C6. For every PDF document whose pages 1 to \<open>numPages\<close> load and yield their
  text content, \<open>extractTextFromPdf\<close> returns the concatenation, in increasing page
  order, of each page's item strings separated by single spaces, each page followed by
  a newline. \<open>strs i\<close> names the strings of page \<open>i\<close>.
\<close>

theorem extractTextFromPdf_concatenates_pages:
  assumes "arrayBuffer file = Inr data"
    and "getDocument data = Inr pdf"
    and "\<forall>i. 1 \<le> i \<and> i \<le> numPages pdf \<longrightarrow>
           (\<exists>page textContent. getPage pdf i = Inr page \<and>
              getTextContent page = Inr textContent \<and> map str (items textContent) = strs i)"
  shows "snd (extractTextFromPdf getDocument w file) =
           Inr (concat (map (\<lambda>k. spec_separated (js '' '') (strs k) @ js ''\<newline>'')
                            [1 ..< numPages pdf + 1]))"
  using assms(1,2) extract_pages_loop [OF assms(3), of 1 "js ''''"]
  by (simp add: extractTextFromPdf_def Let_def js_def)

text \<open>
  The claim at a document of two pages.
\<close>

theorem extractTextFromPdf_concatenates_pages_witness:
  "snd (extractTextFromPdf
          (\<lambda>data. Inr \<lparr> numPages = 2,
             getPage = (\<lambda>i. if i = 1
                then Inr \<lparr> getTextContent = Inr \<lparr> items = [\<lparr> str = js ''Jane'' \<rparr>, \<lparr> str = js ''Doe'' \<rparr>] \<rparr> \<rparr>
                else Inr \<lparr> getTextContent = Inr \<lparr> items = [\<lparr> str = js ''SQL'' \<rparr>] \<rparr> \<rparr>) \<rparr>)
          initial_world
          \<lparr> file_type = js ''application/pdf'', arrayBuffer = Inr [0x25, 0x50, 0x44, 0x46] \<rparr>)
     = Inr (js ''Jane Doe\<newline>SQL\<newline>'')"
proof -
  let ?pdf = "\<lparr> numPages = 2,
             getPage = (\<lambda>i. if i = 1
                then Inr \<lparr> getTextContent = Inr \<lparr> items = [\<lparr> str = js ''Jane'' \<rparr>, \<lparr> str = js ''Doe'' \<rparr>] \<rparr> \<rparr>
                else Inr \<lparr> getTextContent = Inr \<lparr> items = [\<lparr> str = js ''SQL'' \<rparr>] \<rparr> \<rparr>) \<rparr>
             :: PDFDocumentProxy"
  let ?file = "\<lparr> file_type = js ''application/pdf'', arrayBuffer = Inr [0x25, 0x50, 0x44, 0x46] \<rparr>
             :: File"
  let ?strs = "\<lambda>i :: nat. if i = 1 then [js ''Jane'', js ''Doe''] else [js ''SQL'']"
  have buf: "arrayBuffer ?file = Inr [0x25, 0x50, 0x44, 0x46]"
    by simp
  have pages: "\<forall>i. 1 \<le> i \<and> i \<le> numPages ?pdf \<longrightarrow>
           (\<exists>page textContent. getPage ?pdf i = Inr page \<and>
              getTextContent page = Inr textContent \<and> map str (items textContent) = ?strs i)"
    by simp
  have upt: "[1 ..< numPages ?pdf + 1] = [1, 2]"
    by (simp add: upt_rec)
  from extractTextFromPdf_concatenates_pages [of ?file _ "\<lambda>data. Inr ?pdf" ?pdf ?strs initial_world,
      OF buf refl pages]
  show ?thesis
    unfolding upt by (simp add: js_def)
qed

text \<open>
  With no upload target set, as in the initial state, \<open>handleFileUpload\<close>
  returns at its first guard: a file that is not a PDF leaves the error state
  \<open>null\<close>.
\<close>

theorem handleFileUpload_no_target_counterexample:
  "handleFileUpload (\<lambda>data. Inl (Rejected (js ''Invalid PDF structure.'')))
     (Some \<lparr> file_type = js ''text/plain'', arrayBuffer = Inr [] \<rparr>)
     (initial_world, initial_state) = (initial_world, initial_state)
   \<and> error initial_state = None"
  by (simp add: handleFileUpload_def initial_state_def)

text \<open>
  C9, amended. If \<open>handleFileUpload\<close> receives a selected file whose type is not
  \<open>application/pdf\<close> while an upload target is set, it sets the error state to the
  upload-a-PDF message and changes nothing else: no buffer is handed to the PDF
  library and no resume text is modified. With no upload target set it returns
  without any change.
\<close>

theorem handleFileUpload_not_pdf:
  assumes "file_type file \<noteq> js ''application/pdf''"
  shows "(activeResumeIdForUpload s = Some active \<and> active \<noteq> [] \<longrightarrow>
            handleFileUpload getDocument (Some file) (w, s)
              = (w, s\<lparr> error := Some (js ''Please upload a PDF file.'') \<rparr>))
       \<and> (activeResumeIdForUpload s = None \<or> activeResumeIdForUpload s = Some [] \<longrightarrow>
            handleFileUpload getDocument (Some file) (w, s) = (w, s))"
  using assms by (auto simp: handleFileUpload_def)

text \<open>
  The amended claim at a plain-text file, with resume 1 as upload target and with no
  target.
\<close>

theorem handleFileUpload_not_pdf_witness:
  "js ''text/plain'' \<noteq> js ''application/pdf''
   \<and> handleFileUpload (\<lambda>data. Inl (Rejected (js ''Invalid PDF structure.'')))
        (Some \<lparr> file_type = js ''text/plain'', arrayBuffer = Inr [] \<rparr>)
        (initial_world, initial_state\<lparr> activeResumeIdForUpload := Some (js ''1'') \<rparr>)
     = (initial_world,
        initial_state\<lparr> activeResumeIdForUpload := Some (js ''1''),
                        error := Some (js ''Please upload a PDF file.'') \<rparr>)
   \<and> handleFileUpload (\<lambda>data. Inl (Rejected (js ''Invalid PDF structure.'')))
        (Some \<lparr> file_type = js ''text/plain'', arrayBuffer = Inr [] \<rparr>)
        (initial_world, initial_state\<lparr> activeResumeIdForUpload := None \<rparr>)
     = (initial_world, initial_state\<lparr> activeResumeIdForUpload := None \<rparr>)"
proof -
  let ?file = "\<lparr> file_type = js ''text/plain'', arrayBuffer = Inr [] \<rparr> :: File"
  let ?targeted = "initial_state\<lparr> activeResumeIdForUpload := Some (js ''1'') \<rparr>"
  let ?idle = "initial_state\<lparr> activeResumeIdForUpload := None \<rparr>"
  have plain: "js ''text/plain'' \<noteq> js ''application/pdf''"
    by (simp add: js_def)
  then have type: "file_type ?file \<noteq> js ''application/pdf''"
    by simp
  have target: "activeResumeIdForUpload ?targeted = Some (js ''1'') \<and> js ''1'' \<noteq> []"
    by (simp add: js_def)
  have idle: "activeResumeIdForUpload ?idle = None"
    by simp
  from handleFileUpload_not_pdf [OF type, where s = ?targeted and active = "js ''1''"]
    handleFileUpload_not_pdf [OF type, where s = ?idle]
    plain target idle
  show ?thesis by simp
qed

end
